theory Spec2Isabelle
  imports Main
begin

section \<open>JavaScript values\<close>

text \<open>
  The logged payloads are untyped (\<^verbatim>\<open>Record<string, any>\<close>): a value is one of the
  JSON-like shapes below. Numbers are restricted to the integer-valued ones (clock
  readings, status codes, lengths). An object is its property list in insertion order;
  the engine lists integer-like keys first, which this list does not, and no statement
  below depends on the order of the properties.
\<close>

datatype jsval =
    JUndefined
  | JNull
  | JBool bool
  | JNum int
  | JStr string
  | JArr "jsval list"
  | JObj "(string \<times> jsval) list"

type_synonym jsobj = "(string \<times> jsval) list"

text \<open>Truthiness, as tested by \<^verbatim>\<open>if (x)\<close>, \<^verbatim>\<open>!x\<close> and \<^verbatim>\<open>x || y\<close>.\<close>

fun truthy :: "jsval \<Rightarrow> bool" where
  "truthy JUndefined = False"
| "truthy JNull = False"
| "truthy (JBool b) = b"
| "truthy (JNum n) = (n \<noteq> 0)"
| "truthy (JStr s) = (s \<noteq> [])"
| "truthy (JArr xs) = True"
| "truthy (JObj ps) = True"


fun nullish :: "jsval \<Rightarrow> bool" where
  "nullish JUndefined = True"
| "nullish JNull = True"
| "nullish v = False"

text \<open>Reading a property of an object: \<^verbatim>\<open>undefined\<close> when the key is missing.\<close>

definition obj_get :: "jsobj \<Rightarrow> string \<Rightarrow> jsval" where
  "obj_get ps k = (case map_of ps k of None \<Rightarrow> JUndefined | Some v \<Rightarrow> v)"

text \<open>
  Reading a property of an arbitrary non-nullish value. Primitives have none of the
  properties read by this program.
\<close>

fun get :: "jsval \<Rightarrow> string \<Rightarrow> jsval" where
  "get (JObj ps) k = obj_get ps k"
| "get v k = JUndefined"

text \<open>
  Defining a property, as an object literal or a spread does: an existing key keeps its
  position and takes the new value, a new key goes to the end.
\<close>

fun obj_set :: "jsobj \<Rightarrow> string \<Rightarrow> jsval \<Rightarrow> jsobj" where
  "obj_set [] k v = [(k, v)]"
| "obj_set ((k', v') # ps) k v =
     (if k' = k then (k, v) # ps else (k', v') # obj_set ps k v)"


text \<open>
  A thrown value: an \<^verbatim>\<open>Error\<close> object with its name and message, or anything else.
\<close>

datatype js_error =
    JsError string string
  | JsThrown jsval

text \<open>Decimal rendering of a non-negative integer, as a template literal prints it.\<close>

definition digit :: "nat \<Rightarrow> char" where
  "digit n = ''0123456789'' ! (n mod 10)"

fun decimal :: "nat \<Rightarrow> string" where
  "decimal n = (if n < 10 then [digit n] else decimal (n div 10) @ [digit n])"

declare decimal.simps [simp del]

definition decimal_int :: "int \<Rightarrow> string" where
  "decimal_int i = (if i < 0 then CHR ''-'' # decimal (nat (- i)) else decimal (nat i))"

section \<open>Configuration\<close>

text \<open>\<^verbatim>\<open>OsmosisAIOptions\<close> as held in \<^verbatim>\<open>osmosisConfig\<close>; \<open>None\<close> is \<^verbatim>\<open>undefined\<close>.\<close>

datatype log_destination = Console | Cloud | Both

record enabled_apis =
  openai :: "bool option"
  anthropic :: "bool option"
  langchainOpenai :: "bool option"
  langchainAnthropic :: "bool option"

record osmosis_config =
  cfg_enabled :: "bool option"
  logDestination :: "log_destination option"
  logFilePath :: "string option"
  cloudApiKey :: "string option"
  enabledAPIs :: "enabled_apis option"

section \<open>The world outside the program\<close>

text \<open>
  The engine and the network are parameters. Every reading of the clock
  (\<^verbatim>\<open>Date.now()\<close>, \<^verbatim>\<open>new Date()\<close>) and of \<^verbatim>\<open>Math.random()\<close> takes the next entry
  of an oracle, numbered by the count of readings made so far; the \<open>n\<close>-th call of
  \<^verbatim>\<open>fetch\<close> behaves as \<open>fetch_outcome n\<close> says.

  \<open>Math_random_toString36\<close> is the text of \<^verbatim>\<open>Math.random().toString(36)\<close>: the
  language leaves the digits of a fraction in radix 36 to the engine.
\<close>

datatype fetch_result =
    FetchThrows js_error
  | FetchRejects js_error
  | FetchStatus int

record env =
  Date_now :: "nat \<Rightarrow> nat"
  Math_random_toString36 :: "nat \<Rightarrow> string"
  toISOString :: "nat \<Rightarrow> string"
  JSON_stringify :: "jsval \<Rightarrow> js_error + string"
  JSON_stringify_pretty :: "jsval \<Rightarrow> js_error + string"
  String_of :: "jsval \<Rightarrow> string"
  sha256_hex :: "string \<Rightarrow> string"
  h32ToString :: "string \<Rightarrow> string"
  fetch_outcome :: "nat \<Rightarrow> fetch_result"
  JSON_stringify_config :: "osmosis_config \<Rightarrow> string"

text \<open>A template literal prints a string as it is and converts anything else.\<close>

definition template :: "env \<Rightarrow> jsval \<Rightarrow> string" where
  "template e v = (case v of JStr s \<Rightarrow> s | _ \<Rightarrow> String_of e v)"

text \<open>\<^verbatim>\<open>String(error)\<close> and \<^verbatim>\<open>`${error}`\<close>\<close>

fun error_string :: "env \<Rightarrow> js_error \<Rightarrow> string" where
  "error_string e (JsError name msg) =
     (if msg = [] then name else if name = [] then msg else name @ '': '' @ msg)"
| "error_string e (JsThrown v) = String_of e v"

text \<open>\<^verbatim>\<open>error instanceof Error ? error.message : String(error)\<close>\<close>

fun error_message :: "env \<Rightarrow> js_error \<Rightarrow> string" where
  "error_message e (JsError name msg) = msg"
| "error_message e (JsThrown v) = String_of e v"

section \<open>Program state\<close>

text \<open>The globals of \<^verbatim>\<open>osmosis-cloud.ts\<close>.\<close>

record cloud_module =
  enabled :: bool
  osmosisApiKey :: "string option"
  initialized :: bool
  xxhashInstance :: bool

datatype console_line = Log string | Warn string

record fetch_call =
  url :: string
  x_api_key :: string
  payload :: jsobj
  post_body :: string

record world =
  cloud :: cloud_module
  osmosisConfig :: osmosis_config
  console :: "console_line list"
  fetches :: "fetch_call list"
  reads :: nat

definition console_log :: "string \<Rightarrow> world \<Rightarrow> world" where
  "console_log s w = w\<lparr>console := console w @ [Log s]\<rparr>"

definition console_warn :: "string \<Rightarrow> world \<Rightarrow> world" where
  "console_warn s w = w\<lparr>console := console w @ [Warn s]\<rparr>"

definition clock :: "env \<Rightarrow> world \<Rightarrow> nat \<times> world" where
  "clock e w = (Date_now e (reads w), w\<lparr>reads := Suc (reads w)\<rparr>)"

definition random36 :: "env \<Rightarrow> world \<Rightarrow> string \<times> world" where
  "random36 e w = (Math_random_toString36 e (reads w), w\<lparr>reads := Suc (reads w)\<rparr>)"

text \<open>\<^verbatim>\<open>new Date().toISOString()\<close>\<close>

definition iso_now :: "env \<Rightarrow> world \<Rightarrow> string \<times> world" where
  "iso_now e w = (let (t, w1) = clock e w in (toISOString e t, w1))"

section \<open>\<^verbatim>\<open>consts.ts\<close>\<close>

definition OSMOSIS_API_URL :: string where
  "OSMOSIS_API_URL = ''https://ftgrv77m9f.execute-api.us-west-2.amazonaws.com/prod''"

definition defaultConfig :: osmosis_config where
  "defaultConfig =
     \<lparr>cfg_enabled = Some True, logDestination = Some Cloud, logFilePath = None,
      cloudApiKey = None,
      enabledAPIs = Some \<lparr>openai = Some True, anthropic = Some True,
        langchainOpenai = Some True, langchainAnthropic = Some True\<rparr>\<rparr>"

section \<open>\<^verbatim>\<open>osmosis-cloud.ts\<close>\<close>

text \<open>
  \<^verbatim>\<open>init\<close> is asynchronous. \<open>init\<close> is the part that runs at the call, up to the
  \<^verbatim>\<open>await\<close>; \<open>init_resume\<close> is the rest, run when \<^verbatim>\<open>xxhash()\<close> resolves.
\<close>

definition init :: "string \<Rightarrow> world \<Rightarrow> world" where
  "init apiKey w =
     (let w1 = w\<lparr>cloud := (cloud w)\<lparr>osmosisApiKey := Some apiKey\<rparr>\<rparr>
      in if apiKey = []
         then console_warn ''[OSMOSIS-AI] No API key provided. Cloud logging disabled.'' w1
         else w1)"

definition init_resume :: "world \<Rightarrow> world" where
  "init_resume w =
     console_log ''[OSMOSIS-AI] Cloud logging initialized''
       (w\<lparr>cloud := (cloud w)\<lparr>xxhashInstance := True, initialized := True\<rparr>\<rparr>)"

definition disableOsmosis :: "world \<Rightarrow> world" where
  "disableOsmosis w = w\<lparr>cloud := (cloud w)\<lparr>enabled := False\<rparr>\<rparr>"

definition enableOsmosis :: "world \<Rightarrow> world" where
  "enableOsmosis w = w\<lparr>cloud := (cloud w)\<lparr>enabled := True\<rparr>\<rparr>"

definition getOwnerHash :: "env \<Rightarrow> world \<Rightarrow> string \<Rightarrow> string" where
  "getOwnerHash e w apiKey =
     (if \<not> xxhashInstance (cloud w) then take 8 (sha256_hex e apiKey)
      else h32ToString e apiKey)"

definition isCloudLoggingEnabled :: "world \<Rightarrow> bool" where
  "isCloudLoggingEnabled w = (initialized (cloud w) \<and> enabled (cloud w))"

text \<open>\<^verbatim>\<open>!osmosisApiKey\<close>: the key is \<^verbatim>\<open>null\<close> or the empty string.\<close>

definition no_api_key :: "world \<Rightarrow> bool" where
  "no_api_key w = (case osmosisApiKey (cloud w) of None \<Rightarrow> True | Some k \<Rightarrow> k = [])"

text \<open>
  The correlation id: \<^verbatim>\<open>query.requestId || `req_${Date.now()}_${...substring(2, 7)}`\<close>.
  The clock and the random source are read only when the left operand is falsy.
\<close>

definition make_requestId :: "env \<Rightarrow> jsobj \<Rightarrow> world \<Rightarrow> jsval \<times> world" where
  "make_requestId e query w =
     (if truthy (obj_get query ''requestId'') then (obj_get query ''requestId'', w)
      else
        let (t, w1) = clock e w;
            (r, w2) = random36 e w1
        in (JStr (''req_'' @ decimal t @ ''_'' @ take 5 (drop 2 r)), w2))"

text \<open>
  The \<^verbatim>\<open>data\<close> object built inside the \<^verbatim>\<open>try\<close> block, with the clock reading
  \<open>t\<close> that dates it.
\<close>

definition envelope ::
  "env \<Rightarrow> world \<Rightarrow> string \<Rightarrow> nat \<Rightarrow> jsobj \<Rightarrow> jsobj \<Rightarrow> int \<Rightarrow> jsval \<Rightarrow> jsobj" where
  "envelope e w apiKey t query response status requestId =
     [(''owner'', JStr (getOwnerHash e w apiKey)),
      (''date'', JNum (int (t div 1000))),
      (''query'', JObj (obj_set query ''requestId'' requestId)),
      (''response'', JObj response),
      (''status'', JNum status)]"

text \<open>
  The call of \<^verbatim>\<open>fetch\<close> with its \<^verbatim>\<open>then\<close> and \<^verbatim>\<open>catch\<close> handlers. \<open>Inl\<close> is
  an exception thrown at the call itself. The promise settles later; what its handlers
  print is recorded here, at the call that registered them.
\<close>

definition post :: "env \<Rightarrow> string \<Rightarrow> jsobj \<Rightarrow> string \<Rightarrow> world \<Rightarrow> (js_error + unit) \<times> world" where
  "post e apiKey data s w =
     (let call = \<lparr>url = OSMOSIS_API_URL @ ''/ingest'', x_api_key = apiKey, payload = data,
                  post_body = filter (\<lambda>c. c \<noteq> CHR 0x0A) s @ [CHR 0x0A]\<rparr>;
          w1 = w\<lparr>fetches := fetches w @ [call]\<rparr>
      in case fetch_outcome e (length (fetches w)) of
           FetchThrows err \<Rightarrow> (Inl err, w1)
         | FetchRejects err \<Rightarrow>
             (Inr (), console_warn
                (''[OSMOSIS-AI] Failed to send data to Osmosis API: '' @ error_string e err) w1)
         | FetchStatus n \<Rightarrow>
             (Inr (),
              (if n \<noteq> 200
               then console_warn
                      (''[OSMOSIS-AI] API returned status '' @ decimal_int n @ '' for data'') w1
               else w1)))"

text \<open>
  The body of the \<^verbatim>\<open>try\<close> block. \<open>Inl\<close> is an exception thrown inside it, which the
  \<^verbatim>\<open>catch\<close> clause receives.
\<close>

definition send_payload ::
  "env \<Rightarrow> jsobj \<Rightarrow> jsobj \<Rightarrow> int \<Rightarrow> jsval \<Rightarrow> string \<Rightarrow> world \<Rightarrow> (js_error + unit) \<times> world" where
  "send_payload e query response status requestId apiKey w =
     (let (t, w1) = clock e w;
          data = envelope e w apiKey t query response status requestId
      in case JSON_stringify e (JObj data) of
           Inl err \<Rightarrow> (Inl err, w1)
         | Inr s \<Rightarrow> post e apiKey data s w1)"

text \<open>
  \<^verbatim>\<open>sendToOsmosis(query, response, status = 200)\<close>. The result is \<open>Inl\<close> when an
  exception reaches the caller and \<open>Inr\<close> the returned value otherwise.
\<close>

definition sendToOsmosis ::
  "env \<Rightarrow> jsobj \<Rightarrow> jsobj \<Rightarrow> int \<Rightarrow> world \<Rightarrow> (js_error + jsval) \<times> world" where
  "sendToOsmosis e query response status w =
     (if \<not> enabled (cloud w) \<or> no_api_key w then (Inr (JStr []), w)
      else if \<not> initialized (cloud w)
      then (Inr (JStr []),
            console_warn ''[OSMOSIS-AI] Cloud logging not initialized. Call init(apiKey) first.'' w)
      else
        let (requestId, w1) = make_requestId e query w
        in case send_payload e query response status requestId (the (osmosisApiKey (cloud w))) w1 of
             (Inl err, w2) \<Rightarrow>
               (Inr requestId, console_warn
                  (''[OSMOSIS-AI] Failed to prepare data for Osmosis API: '' @ error_string e err) w2)
           | (Inr u, w2) \<Rightarrow> (Inr requestId, w2))"

text \<open>
  A caller uses the value \<^verbatim>\<open>sendToOsmosis\<close> returned.
\<close>

fun returned :: "js_error + jsval \<Rightarrow> jsval" where
  "returned (Inr v) = v"
| "returned (Inl err) = JUndefined"

text \<open>
  The calls a client of the module can make, one after the other. \<open>InitResume\<close> is
  the moment a pending \<^verbatim>\<open>init\<close> continues after its \<^verbatim>\<open>await\<close>.
\<close>

datatype cloud_call =
    Init string
  | InitResume
  | DisableOsmosis
  | EnableOsmosis
  | SendToOsmosis jsobj jsobj int

fun cloud_step :: "env \<Rightarrow> cloud_call \<Rightarrow> world \<Rightarrow> world" where
  "cloud_step e (Init k) w = init k w"
| "cloud_step e InitResume w = init_resume w"
| "cloud_step e DisableOsmosis w = disableOsmosis w"
| "cloud_step e EnableOsmosis w = enableOsmosis w"
| "cloud_step e (SendToOsmosis q r s) w = snd (sendToOsmosis e q r s w)"

fun cloud_run :: "env \<Rightarrow> cloud_call list \<Rightarrow> world \<Rightarrow> world" where
  "cloud_run e [] w = w"
| "cloud_run e (c # cs) w = cloud_run e cs (cloud_step e c w)"

fun init_with_key :: "cloud_call \<Rightarrow> bool" where
  "init_with_key (Init k) = (k \<noteq> [])"
| "init_with_key c = False"

section \<open>\<^verbatim>\<open>index.ts\<close>: configuration\<close>

text \<open>
  The argument of \<^verbatim>\<open>configure\<close> is a partial object: a key is absent, or present
  with a value that may be \<^verbatim>\<open>undefined\<close> (\<open>Given None\<close>). A spread copies every
  present key, an undefined one too.
\<close>

datatype 'a js_key = Absent | Given "'a option"

record enabled_apis_options =
  opt_openai :: "bool js_key"
  opt_anthropic :: "bool js_key"
  opt_langchainOpenai :: "bool js_key"
  opt_langchainAnthropic :: "bool js_key"

record osmosis_options =
  opt_enabled :: "bool js_key"
  opt_logDestination :: "log_destination js_key"
  opt_logFilePath :: "string js_key"
  opt_cloudApiKey :: "string js_key"
  opt_enabledAPIs :: "enabled_apis_options js_key"

fun overwrite :: "'a option \<Rightarrow> 'a js_key \<Rightarrow> 'a option" where
  "overwrite old Absent = old"
| "overwrite old (Given v) = v"

text \<open>\<^verbatim>\<open>previousConfig.enabledAPIs?.flag\<close>\<close>

fun flag :: "(enabled_apis \<Rightarrow> bool option) \<Rightarrow> enabled_apis option \<Rightarrow> bool option" where
  "flag f None = None"
| "flag f (Some a) = f a"

text \<open>\<^verbatim>\<open>{ ...previousConfig.enabledAPIs, ...options.enabledAPIs }\<close>\<close>

definition merge_enabledAPIs :: "enabled_apis option \<Rightarrow> enabled_apis_options \<Rightarrow> enabled_apis" where
  "merge_enabledAPIs prev p =
     \<lparr>openai = overwrite (flag openai prev) (opt_openai p),
      anthropic = overwrite (flag anthropic prev) (opt_anthropic p),
      langchainOpenai = overwrite (flag langchainOpenai prev) (opt_langchainOpenai p),
      langchainAnthropic = overwrite (flag langchainAnthropic prev) (opt_langchainAnthropic p)\<rparr>"

text \<open>\<^verbatim>\<open>{ ...osmosisConfig, ...options }\<close>\<close>

definition spread_config :: "osmosis_config \<Rightarrow> osmosis_options \<Rightarrow> osmosis_config" where
  "spread_config c options =
     \<lparr>cfg_enabled = overwrite (cfg_enabled c) (opt_enabled options),
      logDestination = overwrite (logDestination c) (opt_logDestination options),
      logFilePath = overwrite (logFilePath c) (opt_logFilePath options),
      cloudApiKey = overwrite (cloudApiKey c) (opt_cloudApiKey options),
      enabledAPIs =
        (case opt_enabledAPIs options of
           Absent \<Rightarrow> enabledAPIs c
         | Given None \<Rightarrow> None
         | Given (Some p) \<Rightarrow> Some (merge_enabledAPIs None p))\<rparr>"

text \<open>The object printed by \<^verbatim>\<open>configure\<close>, with the key masked.\<close>

definition masked :: "osmosis_config \<Rightarrow> osmosis_config" where
  "masked c =
     c\<lparr>cloudApiKey :=
         (case cloudApiKey c of
            None \<Rightarrow> None
          | Some k \<Rightarrow> if k \<noteq> [] then Some ''********'' else None)\<rparr>"

text \<open>
  \<^verbatim>\<open>configure(options)\<close>. \<^verbatim>\<open>OsmosisCloud.init\<close> is started and not awaited: its
  first part runs here. The loading and patching of the client libraries that ends the
  function reads the configuration and leaves it as it is; it is not part of this state.
\<close>

definition configure :: "env \<Rightarrow> osmosis_options \<Rightarrow> world \<Rightarrow> world" where
  "configure e options w =
     (let previousConfig = osmosisConfig w;
          c1 = spread_config (osmosisConfig w) options;
          c2 = (case opt_enabledAPIs options of
                  Given (Some p) \<Rightarrow>
                    c1\<lparr>enabledAPIs := Some (merge_enabledAPIs (enabledAPIs previousConfig) p)\<rparr>
                | _ \<Rightarrow> c1);
          w1 = w\<lparr>osmosisConfig := c2\<rparr>;
          w2 = (case opt_cloudApiKey options of
                  Given (Some k) \<Rightarrow> if k \<noteq> [] then init k w1 else w1
                | _ \<Rightarrow> w1);
          w3 = (case opt_logDestination options of
                  Given (Some Cloud) \<Rightarrow> enableOsmosis w2
                | Given (Some Both) \<Rightarrow> enableOsmosis w2
                | Given (Some Console) \<Rightarrow> disableOsmosis w2
                | _ \<Rightarrow> w2)
      in console_log
           (''[OSMOSIS-AI] Configuration updated: ''
              @ JSON_stringify_config e (masked (osmosisConfig w3))) w3)"

definition initCloud :: "string \<Rightarrow> world \<Rightarrow> world" where
  "initCloud apiKey w =
     (let w1 = enableOsmosis (init apiKey w)
      in if logDestination (osmosisConfig w1) = Some Console
         then w1\<lparr>osmosisConfig := (osmosisConfig w1)\<lparr>logDestination := Some Both\<rparr>\<rparr>
         else w1)"

section \<open>\<^verbatim>\<open>index.ts\<close>: request logging\<close>

text \<open>\<^verbatim>\<open>logDestination === "console" || logDestination === "both"\<close>\<close>

definition console_or_both :: "world \<Rightarrow> bool" where
  "console_or_both w =
     (logDestination (osmosisConfig w) = Some Console \<or> logDestination (osmosisConfig w) = Some Both)"

text \<open>\<^verbatim>\<open>logDestination === "cloud" || logDestination === "both"\<close>\<close>

definition cloud_or_both :: "world \<Rightarrow> bool" where
  "cloud_or_both w =
     (logDestination (osmosisConfig w) = Some Cloud \<or> logDestination (osmosisConfig w) = Some Both)"

text \<open>\<^verbatim>\<open>Object.keys(v).length > 0\<close>\<close>

fun has_keys :: "jsval \<Rightarrow> bool" where
  "has_keys (JObj ps) = (ps \<noteq> [])"
| "has_keys (JArr xs) = (xs \<noteq> [])"
| "has_keys (JStr s) = (s \<noteq> [])"
| "has_keys v = False"

definition log_body :: "env \<Rightarrow> jsval \<Rightarrow> world \<Rightarrow> world" where
  "log_body e body w =
     (if truthy body
      then (case body of
              JStr s \<Rightarrow> console_log (''  Body: '' @ s) w
            | _ \<Rightarrow>
               (case JSON_stringify_pretty e body of
                  Inr s \<Rightarrow> console_log (''  Body: '' @ s) w
                | Inl err \<Rightarrow> console_log ''  Body: [Unable to stringify body]'' w))
      else w)"

definition log_query :: "env \<Rightarrow> jsval \<Rightarrow> world \<Rightarrow> world" where
  "log_query e query w =
     (if truthy query \<and> has_keys query
      then (case JSON_stringify_pretty e query of
              Inr s \<Rightarrow> console_log (''  Query: '' @ s) w
            | Inl err \<Rightarrow> console_log ''  Query: [Unable to stringify query]'' w)
      else w)"

text \<open>The block of \<^verbatim>\<open>logRequest\<close> that prints the request.\<close>

definition console_record ::
  "env \<Rightarrow> string \<Rightarrow> string \<Rightarrow> jsval \<Rightarrow> jsval \<Rightarrow> jsval \<Rightarrow> jsval \<Rightarrow> world \<Rightarrow> world" where
  "console_record e apiName timestamp path method body query w =
     log_query e query
       (log_body e body
         (console_log (''  Method: '' @ template e method)
           (console_log (''  Path: '' @ template e path)
             (console_log
                (''[OSMOSIS-AI]['' @ timestamp @ ''] '' @ apiName @ '' Request:'') w))))"

definition queryData ::
  "string \<Rightarrow> jsval \<Rightarrow> jsval \<Rightarrow> jsval \<Rightarrow> jsval \<Rightarrow> string \<Rightarrow> jsobj" where
  "queryData apiName path method body query timestamp =
     [(''api'', JStr apiName), (''path'', path), (''method'', method),
      (''body'', body), (''query'', query), (''timestamp'', JStr timestamp)]"

definition logRequest ::
  "env \<Rightarrow> string \<Rightarrow> string \<Rightarrow> jsval \<Rightarrow> jsval \<Rightarrow> jsval \<Rightarrow> jsval \<Rightarrow> world \<Rightarrow> world" where
  "logRequest e apiName timestamp path method body query w =
     (if cfg_enabled (osmosisConfig w) \<noteq> Some True then w
      else
        let w1 = (if console_or_both w
                  then console_record e apiName timestamp path method body query w
                  else w)
        in if cloud_or_both w1 \<and> isCloudLoggingEnabled w1
           then snd (sendToOsmosis e
                  (queryData apiName path method body query timestamp) [] 200 w1)
           else w1)"

section \<open>\<^verbatim>\<open>index.ts\<close>: the wrappers\<close>

text \<open>
  A wrapper is given how the method it wraps ends: \<open>Inr\<close> the value its promise
  resolves to, \<open>Inl\<close> the error it rejects with. The wrapped method is the library's
  own and prints and posts nothing itself. The result of a wrapper is what its caller
  receives, in the same form; the world it returns holds everything the call has printed
  and posted by the time all of its handlers have run.
\<close>

text \<open>
  \<^verbatim>\<open>const timestamp = new Date().toISOString(); logRequest(apiName, timestamp, ...)\<close>
\<close>

definition log_request_now ::
  "env \<Rightarrow> string \<Rightarrow> jsval \<Rightarrow> jsval \<Rightarrow> jsval \<Rightarrow> jsval \<Rightarrow> world \<Rightarrow> world" where
  "log_request_now e apiName path method body query w =
     (let (timestamp, w1) = iso_now e w
      in logRequest e apiName timestamp path method body query w1)"

text \<open>
  A call of \<^verbatim>\<open>sendToOsmosis\<close> whose two object literals each end with
  \<^verbatim>\<open>timestamp: new Date().toISOString()\<close>: the query takes the first reading, the
  response the second.
\<close>

definition send_now ::
  "env \<Rightarrow> (string \<Rightarrow> jsobj) \<Rightarrow> (string \<Rightarrow> jsobj) \<Rightarrow> int \<Rightarrow> world \<Rightarrow> (js_error + jsval) \<times> world" where
  "send_now e query response status w =
     (let (t1, w1) = iso_now e w;
          (t2, w2) = iso_now e w1
      in sendToOsmosis e (query t1) (response t2) status w2)"

definition data_response :: "jsval \<Rightarrow> string \<Rightarrow> jsobj" where
  "data_response response timestamp = [(''data'', response), (''timestamp'', JStr timestamp)]"

definition error_response :: "env \<Rightarrow> js_error \<Rightarrow> string \<Rightarrow> jsobj" where
  "error_response e error timestamp =
     [(''error'', JStr (error_message e error)), (''timestamp'', JStr timestamp)]"

record request_options =
  req_path :: jsval
  req_method :: jsval
  req_body :: jsval
  req_query :: jsval

text \<open>
  \<^verbatim>\<open>err.message\<close> inside a template literal; reading a property of \<^verbatim>\<open>null\<close> or
  \<^verbatim>\<open>undefined\<close> throws instead.
\<close>

fun dot_message :: "env \<Rightarrow> js_error \<Rightarrow> string option" where
  "dot_message e (JsError name msg) = Some msg"
| "dot_message e (JsThrown v) = (if nullish v then None else Some (template e (get v ''message'')))"

text \<open>
  The handlers on \<^verbatim>\<open>Promise.resolve(options)\<close>: \<open>both\<close> says whether the destination
  \<^verbatim>\<open>"both"\<close> is accepted beside \<^verbatim>\<open>"console"\<close>.
\<close>

definition request_phase ::
  "env \<Rightarrow> string \<Rightarrow> bool \<Rightarrow> js_error + request_options \<Rightarrow> world \<Rightarrow> world" where
  "request_phase e apiName both options w =
     (case options of
        Inr resolvedOptions \<Rightarrow>
          if logDestination (osmosisConfig w) = Some Console
             \<or> (both \<and> logDestination (osmosisConfig w) = Some Both)
          then log_request_now e apiName (req_path resolvedOptions)
                 (req_method resolvedOptions) (req_body resolvedOptions)
                 (req_query resolvedOptions) w
          else w
      | Inl err \<Rightarrow>
          (case dot_message e err of
             Some m \<Rightarrow>
               console_log (''  [Error processing '' @ apiName @ '' request options]: '' @ m) w
           | None \<Rightarrow> w))"

text \<open>
  The query the two \<^verbatim>\<open>request\<close> wrappers send; the one of \<^verbatim>\<open>OpenAI\<close> has a
  \<^verbatim>\<open>version\<close>.
\<close>

definition request_query :: "string \<Rightarrow> string option \<Rightarrow> request_options \<Rightarrow> string \<Rightarrow> jsobj" where
  "request_query apiName version resolvedOptions timestamp =
     (''api'', JStr apiName)
     # (case version of None \<Rightarrow> [] | Some v \<Rightarrow> [(''version'', JStr v)])
     @ [(''path'', req_path resolvedOptions),
        (''method'', req_method resolvedOptions),
        (''body'', req_body resolvedOptions),
        (''query'', req_query resolvedOptions),
        (''timestamp'', JStr timestamp)]"

text \<open>
  The handlers on \<^verbatim>\<open>Promise.all([resolvedOptionsPromise, responsePromise])\<close>: the
  envelope is sent when both resolve, and the \<^verbatim>\<open>catch\<close> is empty.
\<close>

definition response_phase ::
  "env \<Rightarrow> string \<Rightarrow> string option \<Rightarrow> js_error + request_options \<Rightarrow> js_error + jsval \<Rightarrow> world
     \<Rightarrow> world" where
  "response_phase e apiName version options original w =
     (case (options, original) of
        (Inr resolvedOptions, Inr response) \<Rightarrow>
          snd (send_now e (request_query apiName version resolvedOptions)
                 (data_response response) 200 w)
      | _ \<Rightarrow> w)"

text \<open>The patched \<^verbatim>\<open>OpenAI.prototype.request\<close>.\<close>

definition openai_request ::
  "env \<Rightarrow> js_error + request_options \<Rightarrow> js_error + jsval \<Rightarrow> world
     \<Rightarrow> (js_error + jsval) \<times> world" where
  "openai_request e options original w =
     (let w1 = request_phase e ''OpenAI'' True options w
      in if cloud_or_both w
         then (original, response_phase e ''OpenAI'' (Some ''v1'') options original w1)
         else (original, w1))"

text \<open>The patched \<^verbatim>\<open>Anthropic.prototype.request\<close>.\<close>

definition anthropic_request ::
  "env \<Rightarrow> js_error + request_options \<Rightarrow> js_error + jsval \<Rightarrow> world
     \<Rightarrow> (js_error + jsval) \<times> world" where
  "anthropic_request e options original w =
     (let w1 = request_phase e ''Anthropic'' False options w
      in if cloud_or_both w
         then (original, response_phase e ''Anthropic'' None options original w1)
         else (original, w1))"



section \<open>\<^verbatim>\<open>index.ts\<close>: the LangChain wrappers\<close>








section \<open>\<^verbatim>\<open>index.ts\<close>: the streaming wrapper\<close>










section \<open>Sample inputs\<close>

definition sample_env :: env where
  "sample_env =
     \<lparr>Date_now = (\<lambda>n. 1700000000000 + n),
      Math_random_toString36 = (\<lambda>n. ''0.i''),
      toISOString = (\<lambda>t. ''T'' @ decimal t),
      JSON_stringify = (\<lambda>v. Inr ''{}''),
      JSON_stringify_pretty = (\<lambda>v. Inr ''{}''),
      String_of = (\<lambda>v. ''[object Object]''),
      sha256_hex = (\<lambda>k. ''0123456789abcdef''),
      h32ToString = (\<lambda>k. ''89abcdef''),
      fetch_outcome = (\<lambda>n. FetchStatus 200),
      JSON_stringify_config = (\<lambda>c. ''{}'')\<rparr>"

text \<open>The state of the two modules when they have just been loaded.\<close>

definition fresh_world :: world where
  "fresh_world =
     \<lparr>cloud = \<lparr>enabled = True, osmosisApiKey = None, initialized = False,
               xxhashInstance = False\<rparr>,
      osmosisConfig = defaultConfig, console = [], fetches = [], reads = 0\<rparr>"

text \<open>
  A cloud module that \<^verbatim>\<open>init("test-api-key")\<close> has initialized, under the default
  configuration, before anything is printed or sent.
\<close>

definition ready_world :: world where
  "ready_world =
     \<lparr>cloud = \<lparr>enabled = True, osmosisApiKey = Some ''test-api-key'', initialized = True,
               xxhashInstance = True\<rparr>,
      osmosisConfig = defaultConfig, console = [], fetches = [], reads = 0\<rparr>"

definition with_config :: "bool \<Rightarrow> log_destination \<Rightarrow> world \<Rightarrow> world" where
  "with_config on dest w =
     w\<lparr>osmosisConfig := (osmosisConfig w)\<lparr>cfg_enabled := Some on, logDestination := Some dest\<rparr>\<rparr>"

definition sample_options :: request_options where
  "sample_options =
     \<lparr>req_path = JStr ''/v1/messages'', req_method = JStr ''post'',
      req_body = JObj [(''model'', JStr ''m'')], req_query = JUndefined\<rparr>"





section \<open>The deltas of a stream\<close>



section \<open>What a call has sent and printed\<close>

text \<open>
  The cloud module is ready to send when the three guards of \<^verbatim>\<open>sendToOsmosis\<close> let a
  call through.
\<close>

definition ready :: "world \<Rightarrow> bool" where
  "ready w = (enabled (cloud w) \<and> \<not> no_api_key w \<and> initialized (cloud w))"

definition new_fetches :: "world \<Rightarrow> world \<Rightarrow> fetch_call list" where
  "new_fetches w w' = drop (length (fetches w)) (fetches w')"

definition new_console :: "world \<Rightarrow> world \<Rightarrow> console_line list" where
  "new_console w w' = drop (length (console w)) (console w')"

definition sent_status :: "fetch_call \<Rightarrow> jsval" where
  "sent_status c = obj_get (payload c) ''status''"

definition sent_query :: "fetch_call \<Rightarrow> jsval" where
  "sent_query c = obj_get (payload c) ''query''"

definition sent_response :: "fetch_call \<Rightarrow> jsval" where
  "sent_response c = obj_get (payload c) ''response''"

definition sent_requestId :: "fetch_call \<Rightarrow> jsval" where
  "sent_requestId c = get (sent_query c) ''requestId''"

text \<open>The envelopes handed to \<^verbatim>\<open>fetch\<close> between two states, oldest first.\<close>

definition sent :: "world \<Rightarrow> world \<Rightarrow> jsobj list" where
  "sent w w' = map payload (new_fetches w w')"

text \<open>
  What an envelope says of the outcome of a call: its \<^verbatim>\<open>status\<close>, the request in
  \<^verbatim>\<open>query.body\<close> and the message in \<^verbatim>\<open>response.error\<close>.
\<close>

definition outcome_summary :: "jsobj \<Rightarrow> jsval \<times> jsval \<times> jsval" where
  "outcome_summary d =
     (obj_get d ''status'', get (obj_get d ''query'') ''body'',
      get (obj_get d ''response'') ''error'')"


text \<open>The \<^verbatim>\<open>data\<close> object that \<^verbatim>\<open>sendToOsmosis\<close> builds when it is called in \<open>w\<close>.\<close>

definition prepared :: "env \<Rightarrow> jsobj \<Rightarrow> jsobj \<Rightarrow> int \<Rightarrow> world \<Rightarrow> jsobj" where
  "prepared e query response status w =
     envelope e w (the (osmosisApiKey (cloud w)))
       (Date_now e (reads (snd (make_requestId e query w))))
       query response status (fst (make_requestId e query w))"

text \<open>The serializer accepts every value.\<close>

definition serializes :: "env \<Rightarrow> bool" where
  "serializes e = (\<forall>v. \<exists>s. JSON_stringify e v = Inr s)"

text \<open>
  The text of \<^verbatim>\<open>x.toString(36)\<close> for \<open>0 \<le> x < 1\<close>: \<^verbatim>\<open>0\<close>, or \<^verbatim>\<open>0.\<close> and the digits
  of the fraction.
\<close>

definition base36_digit :: "char \<Rightarrow> bool" where
  "base36_digit c = (c \<in> set ''0123456789abcdefghijklmnopqrstuvwxyz'')"

definition radix36_fraction :: "string \<Rightarrow> bool" where
  "radix36_fraction s = (s = ''0'' \<or> (take 2 s = ''0.'' \<and> list_all base36_digit (drop 2 s)))"

text \<open>Partial objects passed to \<^verbatim>\<open>configure\<close>.\<close>

definition no_options :: osmosis_options where
  "no_options =
     \<lparr>opt_enabled = Absent, opt_logDestination = Absent, opt_logFilePath = Absent,
      opt_cloudApiKey = Absent, opt_enabledAPIs = Absent\<rparr>"

definition no_flags :: enabled_apis_options where
  "no_flags =
     \<lparr>opt_openai = Absent, opt_anthropic = Absent, opt_langchainOpenai = Absent,
      opt_langchainAnthropic = Absent\<rparr>"


definition send_now_payload ::
  "env \<Rightarrow> (string \<Rightarrow> jsobj) \<Rightarrow> (string \<Rightarrow> jsobj) \<Rightarrow> int \<Rightarrow> world \<Rightarrow> jsobj" where
  "send_now_payload e Q R s w =
     prepared e (Q (fst (iso_now e w))) (R (fst (iso_now e (snd (iso_now e w))))) s
       (snd (iso_now e (snd (iso_now e w))))"


section \<open>Facts about the cloud module\<close>

lemma decimal_sample: "decimal 1700000000000 = ''1700000000000''"
  by (simp add: decimal.simps digit_def)

lemma obj_get_obj_set: "obj_get (obj_set ps k v) k = v"
  by (induction ps) (auto simp: obj_get_def)

lemma sendToOsmosis_off:
  "\<not> enabled (cloud w) \<or> no_api_key w \<Longrightarrow> sendToOsmosis e q r s w = (Inr (JStr []), w)"
  by (simp add: sendToOsmosis_def)

lemma sendToOsmosis_uninit:
  "enabled (cloud w) \<Longrightarrow> \<not> no_api_key w \<Longrightarrow> \<not> initialized (cloud w) \<Longrightarrow>
   sendToOsmosis e q r s w =
     (Inr (JStr []),
      console_warn ''[OSMOSIS-AI] Cloud logging not initialized. Call init(apiKey) first.'' w)"
  by (simp add: sendToOsmosis_def)

lemma sendToOsmosis_value:
  "ready w \<Longrightarrow> fst (sendToOsmosis e q r s w) = Inr (fst (make_requestId e q w))"
  by (simp add: sendToOsmosis_def ready_def split: prod.splits sum.splits)

lemma sendToOsmosis_returns: "\<exists>v. fst (sendToOsmosis e q r s w) = Inr v"
  by (simp add: sendToOsmosis_def split: prod.splits sum.splits)

lemma make_requestId_keeps:
  "fetches (snd (make_requestId e q w)) = fetches w"
  "console (snd (make_requestId e q w)) = console w"
  "cloud (snd (make_requestId e q w)) = cloud w"
  "osmosisConfig (snd (make_requestId e q w)) = osmosisConfig w"
  by (simp_all add: make_requestId_def clock_def random36_def Let_def split: prod.splits)

lemma post_keeps:
  "cloud (snd (post e k d ser w)) = cloud w"
  "osmosisConfig (snd (post e k d ser w)) = osmosisConfig w"
  "length (fetches (snd (post e k d ser w))) = Suc (length (fetches w))"
  by (simp_all add: post_def Let_def console_warn_def split: fetch_result.splits)

lemma post_fetches:
  "\<exists>c. fetches (snd (post e k d ser w)) = fetches w @ [c] \<and> payload c = d"
  by (simp add: post_def Let_def console_warn_def split: fetch_result.splits)

lemma send_payload_keeps:
  "cloud (snd (send_payload e q r s rid k w)) = cloud w"
  "osmosisConfig (snd (send_payload e q r s rid k w)) = osmosisConfig w"
  by (simp_all add: send_payload_def clock_def Let_def post_keeps split: prod.splits sum.splits)

lemma sendToOsmosis_ready:
  "ready w \<Longrightarrow>
   sendToOsmosis e q r s w =
     (let m = make_requestId e q w;
          p = send_payload e q r s (fst m) (the (osmosisApiKey (cloud w))) (snd m)
      in (Inr (fst m),
          case fst p of
            Inl err \<Rightarrow> console_warn
              (''[OSMOSIS-AI] Failed to prepare data for Osmosis API: '' @ error_string e err) (snd p)
          | Inr u \<Rightarrow> snd p))"
  by (simp add: sendToOsmosis_def ready_def Let_def split: prod.splits sum.splits)

lemma sendToOsmosis_not_ready:
  "\<not> ready w \<Longrightarrow> fst (sendToOsmosis e q r s w) = Inr (JStr []) \<and>
     fetches (snd (sendToOsmosis e q r s w)) = fetches w \<and>
     cloud (snd (sendToOsmosis e q r s w)) = cloud w \<and>
     osmosisConfig (snd (sendToOsmosis e q r s w)) = osmosisConfig w"
  by (auto simp add: sendToOsmosis_def ready_def console_warn_def)

lemma sendToOsmosis_keeps:
  "cloud (snd (sendToOsmosis e q r s w)) = cloud w"
  "osmosisConfig (snd (sendToOsmosis e q r s w)) = osmosisConfig w"
  by (cases "ready w";
      simp add: sendToOsmosis_ready sendToOsmosis_not_ready Let_def console_warn_def
        send_payload_keeps make_requestId_keeps split: sum.splits)+

lemma sendToOsmosis_fetches:
  assumes "ready w" and "serializes e"
  shows "\<exists>c. fetches (snd (sendToOsmosis e q r s w)) = fetches w @ [c]
             \<and> payload c = prepared e q r s w"
proof -
  let ?m = "make_requestId e q w"
  let ?d = "prepared e q r s w"
  from assms(2) obtain ser where ser: "JSON_stringify e (JObj ?d) = Inr ser"
    unfolding serializes_def by blast
  have env: "envelope e (snd ?m) k t q r s rid = envelope e w k t q r s rid" for k t rid
    by (simp add: envelope_def getOwnerHash_def make_requestId_keeps)
  have sp: "send_payload e q r s (fst ?m) (the (osmosisApiKey (cloud w))) (snd ?m) =
      post e (the (osmosisApiKey (cloud w))) ?d ser (snd (clock e (snd ?m)))"
    using ser by (simp add: send_payload_def prepared_def clock_def Let_def env)
  obtain c where c: "fetches (snd (post e (the (osmosisApiKey (cloud w))) ?d ser (snd (clock e (snd ?m)))))
      = fetches (snd (clock e (snd ?m))) @ [c]" "payload c = ?d"
    using post_fetches by blast
  have "fetches (snd (clock e (snd ?m))) = fetches w"
    by (simp add: clock_def make_requestId_keeps)
  with c sp show ?thesis
    using assms(1)
    by (auto simp add: sendToOsmosis_ready Let_def console_warn_def split: sum.splits)
qed

lemma prepared_fields:
  "obj_get (prepared e q r s w) ''status'' = JNum s"
  "obj_get (prepared e q r s w) ''response'' = JObj r"
  "obj_get (prepared e q r s w) ''query'' = JObj (obj_set q ''requestId'' (fst (make_requestId e q w)))"
  by (simp_all add: prepared_def envelope_def obj_get_def)


lemma sendToOsmosis_new:
  assumes "ready w"
  shows "new_fetches w (snd (sendToOsmosis e q r s w)) = []
         \<or> (\<exists>c. new_fetches w (snd (sendToOsmosis e q r s w)) = [c]
                 \<and> payload c = prepared e q r s w)"
proof -
  let ?m = "make_requestId e q w"
  let ?k = "the (osmosisApiKey (cloud w))"
  let ?d = "prepared e q r s w"
  have env: "envelope e (snd ?m) k t q r s rid = envelope e w k t q r s rid" for k t rid
    by (simp add: envelope_def getOwnerHash_def make_requestId_keeps)
  have base: "fetches (snd (clock e (snd ?m))) = fetches w"
    by (simp add: clock_def make_requestId_keeps)
  show ?thesis
  proof (cases "JSON_stringify e (JObj ?d)")
    case (Inl err)
    then have "send_payload e q r s (fst ?m) ?k (snd ?m) = (Inl err, snd (clock e (snd ?m)))"
      by (simp add: send_payload_def prepared_def clock_def Let_def env)
    then show ?thesis
      using assms base by (simp add: sendToOsmosis_ready Let_def console_warn_def new_fetches_def)
  next
    case (Inr ser)
    then have sp: "send_payload e q r s (fst ?m) ?k (snd ?m) =
        post e ?k ?d ser (snd (clock e (snd ?m)))"
      by (simp add: send_payload_def prepared_def clock_def Let_def env)
    obtain c where c:
      "fetches (snd (post e ?k ?d ser (snd (clock e (snd ?m))))) = fetches (snd (clock e (snd ?m))) @ [c]"
      "payload c = ?d"
      using post_fetches by blast
    with sp base show ?thesis
      using assms
      by (auto simp add: sendToOsmosis_ready Let_def console_warn_def new_fetches_def
          split: sum.splits)
  qed
qed

lemma sendToOsmosis_sent:
  assumes "ready w"
  shows "\<forall>c \<in> set (new_fetches w (snd (sendToOsmosis e q r s w))).
           sent_requestId c = fst (make_requestId e q w)
           \<and> sent_status c = JNum s \<and> sent_response c = JObj r
           \<and> sent_query c = JObj (obj_set q ''requestId'' (fst (make_requestId e q w)))"
  using sendToOsmosis_new [OF assms, of e q r s]
  by (auto simp add: sent_requestId_def sent_query_def sent_status_def sent_response_def
      prepared_fields obj_get_obj_set)

lemma sample_serializes: "serializes sample_env"
  by (simp add: serializes_def sample_env_def)

lemma ready_ready_world: "ready ready_world"
  by (simp add: ready_def ready_world_def no_api_key_def)

section \<open>The guards of \<^verbatim>\<open>sendToOsmosis\<close>\<close>

text \<open>
  The claim C5 as it is written asks for a warning whenever a key is configured and the
  module is not initialized. A disabled module with a key, not yet initialized, leaves at
  the first guard and prints nothing.
\<close>

theorem sendToOsmosis_disabled_uninitialized_silent:
  "osmosisApiKey (cloud (disableOsmosis (init ''test-api-key'' fresh_world))) = Some ''test-api-key''
   \<and> \<not> initialized (cloud (disableOsmosis (init ''test-api-key'' fresh_world)))
   \<and> console (snd (sendToOsmosis sample_env [] [] 200
        (disableOsmosis (init ''test-api-key'' fresh_world)))) = []"
  by (simp add: sendToOsmosis_def disableOsmosis_def init_def fresh_world_def)

text \<open>
  C5 (amended). For every query, response and status: when the module-level flag is off
  or no API key is configured (\<^verbatim>\<open>null\<close> or empty), \<^verbatim>\<open>sendToOsmosis\<close> returns the
  empty string and leaves the world as it is: no call of \<^verbatim>\<open>fetch\<close>, nothing printed.
  When the module is enabled and a key is configured but initialization has not
  completed, it returns the empty string, calls \<^verbatim>\<open>fetch\<close> not at all and prints the one
  warning.
\<close>

theorem sendToOsmosis_guards:
  "(\<not> enabled (cloud w) \<or> no_api_key w \<longrightarrow> sendToOsmosis e q r s w = (Inr (JStr []), w))
   \<and> (enabled (cloud w) \<and> \<not> no_api_key w \<and> \<not> initialized (cloud w) \<longrightarrow>
        fst (sendToOsmosis e q r s w) = Inr (JStr [])
        \<and> fetches (snd (sendToOsmosis e q r s w)) = fetches w
        \<and> console (snd (sendToOsmosis e q r s w)) =
            console w @ [Warn ''[OSMOSIS-AI] Cloud logging not initialized. Call init(apiKey) first.''])"
  by (simp add: sendToOsmosis_off sendToOsmosis_uninit console_warn_def)

text \<open>
  The three guards at work: a fresh module (no key), a disabled one, and one whose
  \<^verbatim>\<open>init\<close> has not resumed yet.
\<close>

theorem sendToOsmosis_guards_witness:
  "no_api_key fresh_world
   \<and> sendToOsmosis sample_env [] [] 200 fresh_world = (Inr (JStr []), fresh_world)
   \<and> \<not> enabled (cloud (disableOsmosis ready_world))
   \<and> sendToOsmosis sample_env [] [] 200 (disableOsmosis ready_world)
        = (Inr (JStr []), disableOsmosis ready_world)
   \<and> enabled (cloud (init ''test-api-key'' fresh_world))
   \<and> \<not> no_api_key (init ''test-api-key'' fresh_world)
   \<and> \<not> initialized (cloud (init ''test-api-key'' fresh_world))
   \<and> fst (sendToOsmosis sample_env [] [] 200 (init ''test-api-key'' fresh_world)) = Inr (JStr [])
   \<and> fetches (snd (sendToOsmosis sample_env [] [] 200 (init ''test-api-key'' fresh_world))) = []
   \<and> console (snd (sendToOsmosis sample_env [] [] 200 (init ''test-api-key'' fresh_world))) =
        [Warn ''[OSMOSIS-AI] Cloud logging not initialized. Call init(apiKey) first.'']"
  using sendToOsmosis_guards [of fresh_world sample_env "[]" "[]" 200]
    sendToOsmosis_guards [of "disableOsmosis ready_world" sample_env "[]" "[]" 200]
    sendToOsmosis_guards [of "init ''test-api-key'' fresh_world" sample_env "[]" "[]" 200]
  by (simp add: fresh_world_def ready_world_def init_def disableOsmosis_def no_api_key_def)

section \<open>Correlation ids\<close>

lemma map_single: "length xs = 1 \<Longrightarrow> \<forall>c \<in> set xs. f c = v \<Longrightarrow> map f xs = [v]"
  by (cases xs) auto

text \<open>
  The claim C6 as it is written gives every generated id a suffix of five characters.
  With \<^verbatim>\<open>Math.random()\<close> returning 0.5, as the repository's own test makes it, the
  text in radix 36 is \<^verbatim>\<open>0.i\<close> and the suffix is the single character \<^verbatim>\<open>i\<close>.
\<close>

theorem generated_id_short_suffix:
  "Math_random_toString36 sample_env 1 = ''0.i''
   \<and> fst (sendToOsmosis sample_env [(''api'', JStr ''test'')] [] 200 ready_world)
       = Inr (JStr ''req_1700000000000_i'')"
proof -
  have "fst (make_requestId sample_env [(''api'', JStr ''test'')] ready_world)
          = JStr ''req_1700000000000_i''"
    by (simp add: make_requestId_def obj_get_def clock_def random36_def sample_env_def
        ready_world_def decimal_sample)
  then show ?thesis
    by (simp add: sendToOsmosis_value [OF ready_ready_world]) (simp add: sample_env_def)
qed

lemma take_drop_base36:
  "radix36_fraction s \<Longrightarrow> list_all base36_digit (take 5 (drop 2 s))"
  by (auto simp add: radix36_fraction_def list_all_iff dest: in_set_takeD)

text \<open>
  C6 (amended). For every call of \<^verbatim>\<open>sendToOsmosis\<close> with the module enabled, a key
  configured and initialization complete, when the query holds no (truthy)
  \<^verbatim>\<open>requestId\<close>: the returned id is \<^verbatim>\<open>req_\<close>, the clock reading in decimal,
  \<^verbatim>\<open>_\<close>, and a suffix made of the characters at positions 2 to 6 of
  \<^verbatim>\<open>Math.random().toString(36)\<close>. The suffix has at most five characters, all of them
  lowercase letters or digits when that text is a fraction in radix 36; the id starts
  with \<^verbatim>\<open>req_\<close>; every envelope the call hands to \<^verbatim>\<open>fetch\<close> carries the id in
  \<^verbatim>\<open>query.requestId\<close>, and there is one when serialization succeeds.
\<close>

theorem generated_id_form:
  assumes "ready w" and "\<not> truthy (obj_get q ''requestId'')"
  shows "fst (sendToOsmosis e q r s w) =
           Inr (JStr (''req_'' @ decimal (Date_now e (reads w)) @ ''_''
                      @ take 5 (drop 2 (Math_random_toString36 e (Suc (reads w))))))
         \<and> length (take 5 (drop 2 (Math_random_toString36 e (Suc (reads w))))) \<le> 5
         \<and> (radix36_fraction (Math_random_toString36 e (Suc (reads w))) \<longrightarrow>
              list_all base36_digit (take 5 (drop 2 (Math_random_toString36 e (Suc (reads w))))))
         \<and> (\<forall>c \<in> set (new_fetches w (snd (sendToOsmosis e q r s w))).
              sent_requestId c = returned (fst (sendToOsmosis e q r s w)))
         \<and> (serializes e \<longrightarrow> length (new_fetches w (snd (sendToOsmosis e q r s w))) = 1)"
proof -
  have id: "fst (make_requestId e q w) =
      JStr (''req_'' @ decimal (Date_now e (reads w)) @ ''_''
            @ take 5 (drop 2 (Math_random_toString36 e (Suc (reads w)))))"
    using assms(2) by (simp add: make_requestId_def clock_def random36_def)
  have sent: "\<forall>c \<in> set (new_fetches w (snd (sendToOsmosis e q r s w))).
      sent_requestId c = fst (make_requestId e q w)"
    using sendToOsmosis_sent [OF assms(1), of e q r s] by auto
  have one: "serializes e \<Longrightarrow> length (new_fetches w (snd (sendToOsmosis e q r s w))) = 1"
    using sendToOsmosis_fetches [OF assms(1), of e q r s] by (auto simp: new_fetches_def)
  show ?thesis
    using id sent one take_drop_base36 sendToOsmosis_value [OF assms(1), of e q r s]
    by simp
qed

text \<open>
  The same call as above: the id \<^verbatim>\<open>req_1700000000000_i\<close> is returned and is the
  \<^verbatim>\<open>requestId\<close> of the one envelope sent.
\<close>

theorem generated_id_form_witness:
  "ready ready_world
   \<and> \<not> truthy (obj_get [(''api'', JStr ''test'')] ''requestId'')
   \<and> serializes sample_env
   \<and> radix36_fraction (Math_random_toString36 sample_env (Suc (reads ready_world)))
   \<and> fst (sendToOsmosis sample_env [(''api'', JStr ''test'')] [] 200 ready_world)
       = Inr (JStr ''req_1700000000000_i'')
   \<and> map sent_requestId
        (new_fetches ready_world
           (snd (sendToOsmosis sample_env [(''api'', JStr ''test'')] [] 200 ready_world)))
       = [JStr ''req_1700000000000_i'']"
proof -
  have h: "\<not> truthy (obj_get [(''api'', JStr ''test'')] ''requestId'')"
    by (simp add: obj_get_def)
  have rnd: "Math_random_toString36 sample_env (Suc (reads ready_world)) = ''0.i''"
    by (simp add: sample_env_def)
  have now: "decimal (Date_now sample_env (reads ready_world)) = ''1700000000000''"
    by (simp add: sample_env_def ready_world_def decimal_sample)
  have frac: "radix36_fraction ''0.i''"
    by (simp add: radix36_fraction_def base36_digit_def)
  note T = generated_id_form [OF ready_ready_world h, of sample_env "[]" 200]
  from T have v: "fst (sendToOsmosis sample_env [(''api'', JStr ''test'')] [] 200 ready_world)
       = Inr (JStr ''req_1700000000000_i'')"
    by (simp add: rnd now)
  from T sample_serializes
  have "length (new_fetches ready_world
           (snd (sendToOsmosis sample_env [(''api'', JStr ''test'')] [] 200 ready_world))) = 1"
    and "\<forall>c \<in> set (new_fetches ready_world
           (snd (sendToOsmosis sample_env [(''api'', JStr ''test'')] [] 200 ready_world))).
         sent_requestId c = JStr ''req_1700000000000_i''"
    by (simp_all add: v)
  then have "map sent_requestId
        (new_fetches ready_world
           (snd (sendToOsmosis sample_env [(''api'', JStr ''test'')] [] 200 ready_world)))
       = [JStr ''req_1700000000000_i'']"
    by (rule map_single)
  with h v frac show ?thesis
    by (simp add: ready_ready_world sample_serializes rnd)
qed

text \<open>
  The claim C7 as it is written returns the caller's id on every call. A disabled module
  returns the empty string whatever the query holds, and an empty \<^verbatim>\<open>requestId\<close> is
  falsy, so a ready module replaces it with a generated id.
\<close>

theorem requestId_not_passed_through:
  "fst (sendToOsmosis sample_env [(''requestId'', JStr ''custom-id-123'')] [] 200
          (disableOsmosis ready_world)) = Inr (JStr [])
   \<and> fst (sendToOsmosis sample_env [(''requestId'', JStr [])] [] 200 ready_world)
       = Inr (JStr ''req_1700000000000_i'')"
proof -
  have "fst (make_requestId sample_env [(''requestId'', JStr [])] ready_world)
          = JStr ''req_1700000000000_i''"
    by (simp add: make_requestId_def obj_get_def clock_def random36_def sample_env_def
        ready_world_def decimal_sample)
  then have "fst (sendToOsmosis sample_env [(''requestId'', JStr [])] [] 200 ready_world)
       = Inr (JStr ''req_1700000000000_i'')"
    by (simp add: sendToOsmosis_value [OF ready_ready_world])
  moreover have "fst (sendToOsmosis sample_env [(''requestId'', JStr ''custom-id-123'')] [] 200
          (disableOsmosis ready_world)) = Inr (JStr [])"
    by (simp add: sendToOsmosis_off disableOsmosis_def)
  ultimately show ?thesis by simp
qed

text \<open>
  C7 (amended). For every call of \<^verbatim>\<open>sendToOsmosis\<close> made while the module is enabled,
  has a key and is initialized, whose query carries a non-empty string as
  \<^verbatim>\<open>requestId\<close>: the function returns that string, every envelope it hands to
  \<^verbatim>\<open>fetch\<close> has it as \<^verbatim>\<open>query.requestId\<close>, and there is one such envelope when
  serialization succeeds.
\<close>

theorem requestId_passthrough:
  assumes "ready w" and "obj_get q ''requestId'' = JStr rid" and "rid \<noteq> []"
  shows "fst (sendToOsmosis e q r s w) = Inr (JStr rid)
         \<and> (\<forall>c \<in> set (new_fetches w (snd (sendToOsmosis e q r s w))). sent_requestId c = JStr rid)
         \<and> (serializes e \<longrightarrow> length (new_fetches w (snd (sendToOsmosis e q r s w))) = 1)"
proof -
  have id: "fst (make_requestId e q w) = JStr rid"
    using assms(2,3) by (simp add: make_requestId_def)
  have one: "serializes e \<Longrightarrow> length (new_fetches w (snd (sendToOsmosis e q r s w))) = 1"
    using sendToOsmosis_fetches [OF assms(1), of e q r s] by (auto simp: new_fetches_def)
  show ?thesis
    using id one sendToOsmosis_sent [OF assms(1), of e q r s]
      sendToOsmosis_value [OF assms(1), of e q r s]
    by simp
qed

text \<open>
  The id \<^verbatim>\<open>custom-id-123\<close> of the repository's test comes back and goes out.
\<close>

theorem requestId_passthrough_witness:
  "ready ready_world
   \<and> obj_get [(''api'', JStr ''test''), (''requestId'', JStr ''custom-id-123'')] ''requestId''
       = JStr ''custom-id-123''
   \<and> serializes sample_env
   \<and> fst (sendToOsmosis sample_env
        [(''api'', JStr ''test''), (''requestId'', JStr ''custom-id-123'')] [] 200 ready_world)
       = Inr (JStr ''custom-id-123'')
   \<and> map sent_requestId
        (new_fetches ready_world
           (snd (sendToOsmosis sample_env
              [(''api'', JStr ''test''), (''requestId'', JStr ''custom-id-123'')] [] 200 ready_world)))
       = [JStr ''custom-id-123'']"
proof -
  have h: "obj_get [(''api'', JStr ''test''), (''requestId'', JStr ''custom-id-123'')] ''requestId''
       = JStr ''custom-id-123''"
    by (simp add: obj_get_def)
  have ne: "''custom-id-123'' \<noteq> []" by simp
  note T = requestId_passthrough [OF ready_ready_world h ne, of sample_env "[]" 200]
  from T sample_serializes
  have "length (new_fetches ready_world
           (snd (sendToOsmosis sample_env
              [(''api'', JStr ''test''), (''requestId'', JStr ''custom-id-123'')] [] 200 ready_world))) = 1"
    and "\<forall>c \<in> set (new_fetches ready_world
           (snd (sendToOsmosis sample_env
              [(''api'', JStr ''test''), (''requestId'', JStr ''custom-id-123'')] [] 200 ready_world))).
         sent_requestId c = JStr ''custom-id-123''"
    by simp_all
  then have "map sent_requestId
        (new_fetches ready_world
           (snd (sendToOsmosis sample_env
              [(''api'', JStr ''test''), (''requestId'', JStr ''custom-id-123'')] [] 200 ready_world)))
       = [JStr ''custom-id-123'']"
    by (rule map_single)
  with T h show ?thesis
    by (simp add: ready_ready_world sample_serializes)
qed

section \<open>Failures of the transport\<close>

lemma sendToOsmosis_outcome:
  assumes "ready w"
  shows "sendToOsmosis e q r s w =
     (Inr (fst (make_requestId e q w)),
      (case JSON_stringify e (JObj (prepared e q r s w)) of
         Inl err \<Rightarrow>
           console_warn
             (''[OSMOSIS-AI] Failed to prepare data for Osmosis API: '' @ error_string e err)
             (snd (clock e (snd (make_requestId e q w))))
       | Inr ser \<Rightarrow>
           (case post e (the (osmosisApiKey (cloud w))) (prepared e q r s w) ser
                   (snd (clock e (snd (make_requestId e q w)))) of
              (Inl err, w2) \<Rightarrow>
                console_warn
                  (''[OSMOSIS-AI] Failed to prepare data for Osmosis API: '' @ error_string e err) w2
            | (Inr u, w2) \<Rightarrow> w2)))"
proof -
  let ?m = "make_requestId e q w"
  have env: "envelope e (snd ?m) k t q r s rid = envelope e w k t q r s rid" for k t rid
    by (simp add: envelope_def getOwnerHash_def make_requestId_keeps)
  show ?thesis
    using assms
    by (simp add: sendToOsmosis_ready send_payload_def prepared_def clock_def Let_def env
        split: sum.splits prod.splits)
qed

text \<open>
  C9. \<^verbatim>\<open>sendToOsmosis\<close> never raises an exception to its caller, in any state. When
  the module is ready the value returned is the correlation id whatever happens to the
  envelope: a serialization failure prints one warning and calls \<^verbatim>\<open>fetch\<close> not at all;
  otherwise \<^verbatim>\<open>fetch\<close> is called once, never again, and a failure of the call or of its
  promise prints one warning, a status other than 200 prints one warning naming the
  status, and status 200 prints nothing.
\<close>

theorem sendToOsmosis_never_raises:
  "(\<exists>v. fst (sendToOsmosis e q r s w) = Inr v)
   \<and> (ready w \<longrightarrow>
        fst (sendToOsmosis e q r s w) = Inr (fst (make_requestId e q w))
        \<and> length (new_fetches w (snd (sendToOsmosis e q r s w)))
            = (case JSON_stringify e (JObj (prepared e q r s w)) of Inl err \<Rightarrow> 0 | Inr ser \<Rightarrow> 1)
        \<and> new_console w (snd (sendToOsmosis e q r s w))
            = (case JSON_stringify e (JObj (prepared e q r s w)) of
                 Inl err \<Rightarrow>
                   [Warn (''[OSMOSIS-AI] Failed to prepare data for Osmosis API: ''
                            @ error_string e err)]
               | Inr ser \<Rightarrow>
                   (case fetch_outcome e (length (fetches w)) of
                      FetchThrows err \<Rightarrow>
                        [Warn (''[OSMOSIS-AI] Failed to prepare data for Osmosis API: ''
                                 @ error_string e err)]
                    | FetchRejects err \<Rightarrow>
                        [Warn (''[OSMOSIS-AI] Failed to send data to Osmosis API: ''
                                 @ error_string e err)]
                    | FetchStatus n \<Rightarrow>
                        (if n = 200 then []
                         else [Warn (''[OSMOSIS-AI] API returned status '' @ decimal_int n
                                       @ '' for data'')]))))"
proof -
  have keep: "fetches (snd (clock e (snd (make_requestId e q w)))) = fetches w"
    "console (snd (clock e (snd (make_requestId e q w)))) = console w"
    by (simp_all add: clock_def make_requestId_keeps)
  have "ready w \<Longrightarrow> ?thesis"
    by (simp add: sendToOsmosis_outcome new_fetches_def new_console_def console_warn_def
        post_def Let_def keep split: sum.splits fetch_result.splits)
  then show ?thesis
    using sendToOsmosis_returns [of e q r s w] by blast
qed

lemma decimal_int_400: "decimal_int 400 = ''400''"
  by (simp add: decimal_int_def decimal.simps digit_def)

text \<open>
  A serializer that throws, a \<^verbatim>\<open>fetch\<close> that throws, one whose promise rejects and an
  endpoint that answers 400, each on a ready module.
\<close>

theorem sendToOsmosis_never_raises_witness:
  "ready ready_world
   \<and> fst (sendToOsmosis
        (sample_env\<lparr>JSON_stringify := (\<lambda>v. Inl (JsError ''TypeError'' ''circular structure''))\<rparr>)
        [(''requestId'', JStr ''id-1'')] [] 200 ready_world) = Inr (JStr ''id-1'')
   \<and> new_fetches ready_world (snd (sendToOsmosis
        (sample_env\<lparr>JSON_stringify := (\<lambda>v. Inl (JsError ''TypeError'' ''circular structure''))\<rparr>)
        [(''requestId'', JStr ''id-1'')] [] 200 ready_world)) = []
   \<and> new_console ready_world (snd (sendToOsmosis
        (sample_env\<lparr>JSON_stringify := (\<lambda>v. Inl (JsError ''TypeError'' ''circular structure''))\<rparr>)
        [(''requestId'', JStr ''id-1'')] [] 200 ready_world))
       = [Warn ''[OSMOSIS-AI] Failed to prepare data for Osmosis API: TypeError: circular structure'']
   \<and> new_console ready_world (snd (sendToOsmosis
        (sample_env\<lparr>fetch_outcome := (\<lambda>n. FetchThrows (JsError ''Error'' ''Network error''))\<rparr>)
        [(''requestId'', JStr ''id-1'')] [] 200 ready_world))
       = [Warn ''[OSMOSIS-AI] Failed to prepare data for Osmosis API: Error: Network error'']
   \<and> new_console ready_world (snd (sendToOsmosis
        (sample_env\<lparr>fetch_outcome := (\<lambda>n. FetchRejects (JsError ''Error'' ''Network error''))\<rparr>)
        [(''requestId'', JStr ''id-1'')] [] 200 ready_world))
       = [Warn ''[OSMOSIS-AI] Failed to send data to Osmosis API: Error: Network error'']
   \<and> new_console ready_world (snd (sendToOsmosis
        (sample_env\<lparr>fetch_outcome := (\<lambda>n. FetchStatus 400)\<rparr>)
        [(''requestId'', JStr ''id-1'')] [] 200 ready_world))
       = [Warn ''[OSMOSIS-AI] API returned status 400 for data'']
   \<and> length (new_fetches ready_world (snd (sendToOsmosis
        (sample_env\<lparr>fetch_outcome := (\<lambda>n. FetchStatus 400)\<rparr>)
        [(''requestId'', JStr ''id-1'')] [] 200 ready_world))) = 1"
proof -
  have id: "fst (make_requestId e [(''requestId'', JStr ''id-1'')] ready_world) = JStr ''id-1''" for e
    by (simp add: make_requestId_def obj_get_def)
  show ?thesis
    using
      sendToOsmosis_never_raises [of
        "sample_env\<lparr>JSON_stringify := (\<lambda>v. Inl (JsError ''TypeError'' ''circular structure''))\<rparr>"
        "[(''requestId'', JStr ''id-1'')]" "[]" 200 ready_world]
      sendToOsmosis_never_raises [of
        "sample_env\<lparr>fetch_outcome := (\<lambda>n. FetchThrows (JsError ''Error'' ''Network error''))\<rparr>"
        "[(''requestId'', JStr ''id-1'')]" "[]" 200 ready_world]
      sendToOsmosis_never_raises [of
        "sample_env\<lparr>fetch_outcome := (\<lambda>n. FetchRejects (JsError ''Error'' ''Network error''))\<rparr>"
        "[(''requestId'', JStr ''id-1'')]" "[]" 200 ready_world]
      sendToOsmosis_never_raises [of
        "sample_env\<lparr>fetch_outcome := (\<lambda>n. FetchStatus 400)\<rparr>"
        "[(''requestId'', JStr ''id-1'')]" "[]" 200 ready_world]
    by (simp add: ready_ready_world id sample_env_def decimal_int_400)
qed

section \<open>An empty API key\<close>

lemma empty_key_step:
  assumes "osmosisApiKey (cloud w) = Some []" and "\<not> init_with_key c"
  shows "osmosisApiKey (cloud (cloud_step e c w)) = Some [] \<and> fetches (cloud_step e c w) = fetches w"
proof (cases c)
  case (SendToOsmosis q r s)
  have "no_api_key w" using assms(1) by (simp add: no_api_key_def)
  then show ?thesis using assms(1) SendToOsmosis by (simp add: sendToOsmosis_off)
qed (use assms in \<open>simp_all add: init_def init_resume_def disableOsmosis_def enableOsmosis_def
      console_warn_def console_log_def\<close>)

lemma empty_key_run:
  "osmosisApiKey (cloud w) = Some [] \<Longrightarrow> \<forall>c \<in> set calls. \<not> init_with_key c \<Longrightarrow>
   osmosisApiKey (cloud (cloud_run e calls w)) = Some [] \<and> fetches (cloud_run e calls w) = fetches w"
proof (induction calls arbitrary: w)
  case Nil
  then show ?case by simp
next
  case (Cons c calls)
  from Cons.prems have step: "osmosisApiKey (cloud (cloud_step e c w)) = Some []"
      "fetches (cloud_step e c w) = fetches w"
    using empty_key_step [of w c e] by simp_all
  from Cons.IH [OF step(1)] Cons.prems(2) step(2) show ?case by simp
qed

text \<open>
  C10. \<^verbatim>\<open>init("")\<close> prints a warning and leaves \<^verbatim>\<open>initialized\<close> as it was. After it,
  whatever calls follow (enabling, disabling, the resumption of an earlier \<^verbatim>\<open>init\<close>,
  sending, \<^verbatim>\<open>init("")\<close> again) short of an \<^verbatim>\<open>init\<close> with a non-empty key, no call of
  \<^verbatim>\<open>fetch\<close> has been made and \<^verbatim>\<open>sendToOsmosis\<close> returns the empty string and changes
  nothing. The functions under \<^verbatim>\<open>__testing__\<close> are not among the calls.
\<close>

theorem empty_key_never_sends:
  assumes "\<forall>c \<in> set calls. \<not> init_with_key c"
  shows "console (init [] w) =
           console w @ [Warn ''[OSMOSIS-AI] No API key provided. Cloud logging disabled.'']
         \<and> initialized (cloud (init [] w)) = initialized (cloud w)
         \<and> fetches (cloud_run e calls (init [] w)) = fetches w
         \<and> sendToOsmosis e q r s (cloud_run e calls (init [] w))
             = (Inr (JStr []), cloud_run e calls (init [] w))"
proof -
  have start: "osmosisApiKey (cloud (init [] w)) = Some []" "fetches (init [] w) = fetches w"
    by (simp_all add: init_def console_warn_def)
  from empty_key_run [OF start(1) assms, of e]
  have run: "osmosisApiKey (cloud (cloud_run e calls (init [] w))) = Some []"
    "fetches (cloud_run e calls (init [] w)) = fetches w"
    using start(2) by simp_all
  from run(1) have "no_api_key (cloud_run e calls (init [] w))"
    by (simp add: no_api_key_def)
  then show ?thesis
    using run(2) by (simp add: sendToOsmosis_off) (simp add: init_def console_warn_def)
qed

text \<open>
  On a fresh module \<^verbatim>\<open>initialized\<close> stays false after \<^verbatim>\<open>init("")\<close>; even once an
  earlier \<^verbatim>\<open>init\<close> has resumed and the module is enabled and initialized, nothing is
  sent.
\<close>

theorem empty_key_never_sends_witness:
  "list_all (\<lambda>c. \<not> init_with_key c)
     [EnableOsmosis, InitResume, SendToOsmosis [(''api'', JStr ''test'')] [] 200,
      Init [], DisableOsmosis, EnableOsmosis]
   \<and> initialized (cloud (init [] fresh_world)) = False
   \<and> initialized (cloud (cloud_run sample_env
        [EnableOsmosis, InitResume, SendToOsmosis [(''api'', JStr ''test'')] [] 200,
         Init [], DisableOsmosis, EnableOsmosis] (init [] fresh_world))) = True
   \<and> enabled (cloud (cloud_run sample_env
        [EnableOsmosis, InitResume, SendToOsmosis [(''api'', JStr ''test'')] [] 200,
         Init [], DisableOsmosis, EnableOsmosis] (init [] fresh_world))) = True
   \<and> fetches (cloud_run sample_env
        [EnableOsmosis, InitResume, SendToOsmosis [(''api'', JStr ''test'')] [] 200,
         Init [], DisableOsmosis, EnableOsmosis] (init [] fresh_world)) = []
   \<and> fst (sendToOsmosis sample_env [(''api'', JStr ''test'')] [] 200
        (cloud_run sample_env
          [EnableOsmosis, InitResume, SendToOsmosis [(''api'', JStr ''test'')] [] 200,
           Init [], DisableOsmosis, EnableOsmosis] (init [] fresh_world))) = Inr (JStr [])"
proof -
  have h: "\<forall>c \<in> set [EnableOsmosis, InitResume, SendToOsmosis [(''api'', JStr ''test'')] [] 200,
                Init [], DisableOsmosis, EnableOsmosis]. \<not> init_with_key c"
    by simp
  have run: "cloud (cloud_run sample_env
        [EnableOsmosis, InitResume, SendToOsmosis [(''api'', JStr ''test'')] [] 200,
         Init [], DisableOsmosis, EnableOsmosis] (init [] fresh_world))
      = \<lparr>enabled = True, osmosisApiKey = Some [], initialized = True, xxhashInstance = True\<rparr>"
    by (simp add: init_def init_resume_def enableOsmosis_def disableOsmosis_def console_warn_def
        console_log_def fresh_world_def sendToOsmosis_def no_api_key_def)
  have fresh: "initialized (cloud fresh_world) = False" "fetches fresh_world = []"
    by (simp_all add: fresh_world_def)
  note T = empty_key_never_sends [OF h, of fresh_world sample_env "[(''api'', JStr ''test'')]" "[]" 200]
  from T fresh have a: "initialized (cloud (init [] fresh_world)) = False"
    by (simp only:)
  from T fresh have b: "fetches (cloud_run sample_env
        [EnableOsmosis, InitResume, SendToOsmosis [(''api'', JStr ''test'')] [] 200,
         Init [], DisableOsmosis, EnableOsmosis] (init [] fresh_world)) = []"
    by (simp only:)
  from T have c: "fst (sendToOsmosis sample_env [(''api'', JStr ''test'')] [] 200
        (cloud_run sample_env
          [EnableOsmosis, InitResume, SendToOsmosis [(''api'', JStr ''test'')] [] 200,
           Init [], DisableOsmosis, EnableOsmosis] (init [] fresh_world))) = Inr (JStr [])"
    by (simp only: fst_conv)
  have l: "list_all (\<lambda>c. \<not> init_with_key c)
     [EnableOsmosis, InitResume, SendToOsmosis [(''api'', JStr ''test'')] [] 200,
      Init [], DisableOsmosis, EnableOsmosis]"
    by simp
  from l a b c run show ?thesis
    by (simp only: cloud_module.simps simp_thms)
qed

section \<open>Merging the configuration\<close>

lemma configure_config:
  "osmosisConfig (configure e options w) =
     (case opt_enabledAPIs options of
        Given (Some p) \<Rightarrow>
          (spread_config (osmosisConfig w) options)
            \<lparr>enabledAPIs := Some (merge_enabledAPIs (enabledAPIs (osmosisConfig w)) p)\<rparr>
      | _ \<Rightarrow> spread_config (osmosisConfig w) options)"
  by (simp add: configure_def Let_def console_log_def init_def console_warn_def enableOsmosis_def
      disableOsmosis_def split: js_key.splits option.splits log_destination.splits)

text \<open>
  Away from a partial that holds the key \<^verbatim>\<open>enabledAPIs\<close> with the value
  \<^verbatim>\<open>undefined\<close>, \<^verbatim>\<open>configure\<close> merges as a shallow merge should: each top-level key
  present in the partial overwrites and each absent one keeps its value; when the partial
  supplies an \<^verbatim>\<open>enabledAPIs\<close> object, a flag the object does not mention keeps its prior
  value and a flag it mentions takes the given one; when the partial has no
  \<^verbatim>\<open>enabledAPIs\<close> key the sub-mapping is unchanged. In particular
  \<^verbatim>\<open>configure({enabledAPIs:{anthropic:false}})\<close> after
  \<^verbatim>\<open>configure({enabledAPIs:{openai:true,anthropic:true}})\<close> leaves \<^verbatim>\<open>openai\<close> enabled
  and \<^verbatim>\<open>anthropic\<close> disabled.
\<close>

lemma configure_merge_elsewhere:
  "(\<forall>p. opt_enabledAPIs options = Given (Some p) \<longrightarrow>
      flag openai (enabledAPIs (osmosisConfig (configure e options w)))
        = overwrite (flag openai (enabledAPIs (osmosisConfig w))) (opt_openai p)
      \<and> flag anthropic (enabledAPIs (osmosisConfig (configure e options w)))
        = overwrite (flag anthropic (enabledAPIs (osmosisConfig w))) (opt_anthropic p)
      \<and> flag langchainOpenai (enabledAPIs (osmosisConfig (configure e options w)))
        = overwrite (flag langchainOpenai (enabledAPIs (osmosisConfig w))) (opt_langchainOpenai p)
      \<and> flag langchainAnthropic (enabledAPIs (osmosisConfig (configure e options w)))
        = overwrite (flag langchainAnthropic (enabledAPIs (osmosisConfig w)))
            (opt_langchainAnthropic p))
   \<and> (opt_enabledAPIs options = Absent \<longrightarrow>
        enabledAPIs (osmosisConfig (configure e options w)) = enabledAPIs (osmosisConfig w))
   \<and> cfg_enabled (osmosisConfig (configure e options w))
        = overwrite (cfg_enabled (osmosisConfig w)) (opt_enabled options)
   \<and> logDestination (osmosisConfig (configure e options w))
        = overwrite (logDestination (osmosisConfig w)) (opt_logDestination options)
   \<and> logFilePath (osmosisConfig (configure e options w))
        = overwrite (logFilePath (osmosisConfig w)) (opt_logFilePath options)
   \<and> cloudApiKey (osmosisConfig (configure e options w))
        = overwrite (cloudApiKey (osmosisConfig w)) (opt_cloudApiKey options)
   \<and> flag openai (enabledAPIs (osmosisConfig
        (configure e (no_options\<lparr>opt_enabledAPIs := Given (Some
             (no_flags\<lparr>opt_anthropic := Given (Some False)\<rparr>))\<rparr>)
          (configure e (no_options\<lparr>opt_enabledAPIs := Given (Some
             (no_flags\<lparr>opt_openai := Given (Some True), opt_anthropic := Given (Some True)\<rparr>))\<rparr>)
            w)))) = Some True
   \<and> flag anthropic (enabledAPIs (osmosisConfig
        (configure e (no_options\<lparr>opt_enabledAPIs := Given (Some
             (no_flags\<lparr>opt_anthropic := Given (Some False)\<rparr>))\<rparr>)
          (configure e (no_options\<lparr>opt_enabledAPIs := Given (Some
             (no_flags\<lparr>opt_openai := Given (Some True), opt_anthropic := Given (Some True)\<rparr>))\<rparr>)
            w)))) = Some False"
  by (simp add: configure_config spread_config_def merge_enabledAPIs_def no_options_def no_flags_def
      split: js_key.splits option.splits)

text \<open>
  C8 says that after every \<^verbatim>\<open>configure\<close> call the flags the partial does not mention
  keep their prior value. The repository's test of the defaults passes
  \<^verbatim>\<open>enabledAPIs: undefined\<close> and expects the values in place to stay in use. The code
  does not keep them: the spread copies the undefined key before the guard
  \<^verbatim>\<open>if (options.enabledAPIs)\<close> is reached, the guard then skips the merge, and
  \<^verbatim>\<open>openai\<close>, enabled before the call, is \<^verbatim>\<open>undefined\<close> after it.
\<close>

theorem configure_undefined_enabledAPIs:
  "flag openai (enabledAPIs (osmosisConfig
      (configure sample_env
         (no_options\<lparr>opt_enabledAPIs := Given (Some
            (no_flags\<lparr>opt_openai := Given (Some True), opt_anthropic := Given (Some True)\<rparr>))\<rparr>)
         fresh_world))) = Some True
   \<and> flag openai (enabledAPIs (osmosisConfig
      (configure sample_env (no_options\<lparr>opt_enabledAPIs := Given None\<rparr>)
        (configure sample_env
           (no_options\<lparr>opt_enabledAPIs := Given (Some
              (no_flags\<lparr>opt_openai := Given (Some True), opt_anthropic := Given (Some True)\<rparr>))\<rparr>)
           fresh_world)))) = None"
  by (simp add: configure_config spread_config_def merge_enabledAPIs_def no_options_def no_flags_def)

section \<open>Facts about the wrappers\<close>


lemma iso_now_keeps:
  "cloud (snd (iso_now e w)) = cloud w"
  "osmosisConfig (snd (iso_now e w)) = osmosisConfig w"
  "fetches (snd (iso_now e w)) = fetches w"
  "console (snd (iso_now e w)) = console w"
  by (simp_all add: iso_now_def clock_def)

lemma console_log_keeps:
  "cloud (console_log x w) = cloud w"
  "osmosisConfig (console_log x w) = osmosisConfig w"
  "fetches (console_log x w) = fetches w"
  "reads (console_log x w) = reads w"
  by (simp_all add: console_log_def)

lemma log_body_keeps:
  "cloud (log_body e b w) = cloud w"
  "osmosisConfig (log_body e b w) = osmosisConfig w"
  "fetches (log_body e b w) = fetches w"
  "reads (log_body e b w) = reads w"
  by (simp_all add: log_body_def console_log_keeps split: jsval.splits sum.splits)

lemma log_query_keeps:
  "cloud (log_query e b w) = cloud w"
  "osmosisConfig (log_query e b w) = osmosisConfig w"
  "fetches (log_query e b w) = fetches w"
  "reads (log_query e b w) = reads w"
  by (simp_all add: log_query_def console_log_keeps split: sum.splits)



lemma sendToOsmosis_sends:
  assumes "serializes e"
  shows "map payload (fetches (snd (sendToOsmosis e q r s w))) =
     map payload (fetches w) @ (if ready w then [prepared e q r s w] else [])"
proof (cases "ready w")
  case True
  from sendToOsmosis_fetches [OF True assms, of q r s] show ?thesis
    using True by auto
next
  case False
  then show ?thesis by (simp add: sendToOsmosis_not_ready)
qed

lemma console_record_keeps:
  "cloud (console_record e a ts p m b q w) = cloud w"
  "osmosisConfig (console_record e a ts p m b q w) = osmosisConfig w"
  "fetches (console_record e a ts p m b q w) = fetches w"
  "reads (console_record e a ts p m b q w) = reads w"
  by (simp_all add: console_record_def log_query_keeps log_body_keeps console_log_keeps)

lemma logRequest_keeps:
  "cloud (logRequest e a ts p m b q w) = cloud w"
  "osmosisConfig (logRequest e a ts p m b q w) = osmosisConfig w"
  by (simp_all add: logRequest_def Let_def sendToOsmosis_keeps console_record_keeps)



lemma log_request_now_keeps:
  "cloud (log_request_now e a p m b q w) = cloud w"
  "osmosisConfig (log_request_now e a p m b q w) = osmosisConfig w"
  by (simp_all add: log_request_now_def case_prod_beta logRequest_keeps iso_now_keeps)

lemma send_now_keeps:
  "cloud (snd (send_now e Q R s w)) = cloud w"
  "osmosisConfig (snd (send_now e Q R s w)) = osmosisConfig w"
  by (simp_all add: send_now_def case_prod_beta sendToOsmosis_keeps iso_now_keeps)

lemma ready_keeps:
  "ready (snd (iso_now e w)) = ready w"
  "ready (log_request_now e a p m b q w) = ready w"
  "ready (snd (send_now e Q R s w)) = ready w"
  "ready (snd (sendToOsmosis e x y z w)) = ready w"
  "ready (console_log l w) = ready w"
  by (simp_all add: ready_def no_api_key_def iso_now_keeps log_request_now_keeps send_now_keeps
      sendToOsmosis_keeps console_log_keeps)

lemma destination_keeps:
  "cloud_or_both (snd (iso_now e w)) = cloud_or_both w"
  "cloud_or_both (log_request_now e a p m b q w) = cloud_or_both w"
  "cloud_or_both (snd (send_now e Q R s w)) = cloud_or_both w"
  "cloud_or_both (snd (sendToOsmosis e x y z w)) = cloud_or_both w"
  "cloud_or_both (console_log l w) = cloud_or_both w"
  "console_or_both (snd (iso_now e w)) = console_or_both w"
  "console_or_both (log_request_now e a p m b q w) = console_or_both w"
  by (simp_all add: cloud_or_both_def console_or_both_def iso_now_keeps log_request_now_keeps
      send_now_keeps sendToOsmosis_keeps console_log_keeps)


lemma send_now_sends:
  assumes "serializes e"
  shows "map payload (fetches (snd (send_now e Q R s w))) =
     map payload (fetches w) @ (if ready w then [send_now_payload e Q R s w] else [])"
  by (simp add: send_now_def case_prod_beta sendToOsmosis_sends [OF assms] iso_now_keeps
      ready_keeps send_now_payload_def)

lemma sent_eqI: "map payload (fetches w') = map payload (fetches w) @ X \<Longrightarrow> sent w w' = X"
proof -
  assume a: "map payload (fetches w') = map payload (fetches w) @ X"
  have "sent w w' = drop (length (fetches w)) (map payload (fetches w'))"
    by (simp add: sent_def new_fetches_def drop_map)
  also have "\<dots> = X" by (simp add: a)
  finally show ?thesis .
qed

lemma obj_get_obj_set_other: "k \<noteq> k' \<Longrightarrow> obj_get (obj_set ps k v) k' = obj_get ps k'"
  by (induction ps) (auto simp: obj_get_def)

lemma outcome_summary_prepared:
  "outcome_summary (prepared e q r s w) = (JNum s, obj_get q ''body'', obj_get r ''error'')"
  by (simp add: outcome_summary_def prepared_fields obj_get_obj_set_other)


lemma outcome_summary_send_now:
  "outcome_summary (send_now_payload e Q R s w) =
     (JNum s, obj_get (Q (fst (iso_now e w))) ''body'',
      obj_get (R (fst (iso_now e (snd (iso_now e w))))) ''error'')"
  by (simp add: send_now_payload_def outcome_summary_prepared)


lemma response_error:
  "obj_get (error_response e err t) ''error'' = JStr (error_message e err)"
  "obj_get (data_response r t) ''error'' = JUndefined"
  by (simp_all add: error_response_def data_response_def obj_get_def)













section \<open>What the wrappers log\<close>













lemma sendToOsmosis_quiet:
  assumes "ready w" and "serializes e" and "\<forall>n. fetch_outcome e n = FetchStatus 200"
  shows "console (snd (sendToOsmosis e q r s w)) = console w"
proof -
  from assms(2) obtain ser where "JSON_stringify e (JObj (prepared e q r s w)) = Inr ser"
    unfolding serializes_def by blast
  then show ?thesis
    using assms(3)
    by (simp add: sendToOsmosis_outcome [OF assms(1)] post_def Let_def clock_def
        make_requestId_keeps)
qed

lemma send_now_quiet:
  assumes "ready w" and "serializes e" and "\<forall>n. fetch_outcome e n = FetchStatus 200"
  shows "console (snd (send_now e Q R s w)) = console w"
  using assms(1)
  by (simp add: send_now_def case_prod_beta sendToOsmosis_quiet [OF _ assms(2,3)] ready_keeps
      iso_now_keeps)

lemma with_config_sample:
  "ready (with_config on dest ready_world)"
  "cfg_enabled (osmosisConfig (with_config on dest w)) = Some on"
  "logDestination (osmosisConfig (with_config on dest w)) = Some dest"
  "fetches (with_config on dest ready_world) = []"
  "console (with_config on dest ready_world) = []"
  "reads (with_config on dest ready_world) = 0"
  by (simp_all add: with_config_def ready_def no_api_key_def ready_world_def)

lemma request_query_body: "obj_get (request_query a v ro t) ''body'' = req_body ro"
  by (cases v) (simp_all add: request_query_def obj_get_def)





text \<open>
  C2 says that nothing is logged while \<^verbatim>\<open>Configuration.enabled\<close> is false. The code
  checks the flag in \<^verbatim>\<open>logRequest\<close> only: with the flag false, the destination
  \<^verbatim>\<open>cloud\<close> and a ready cloud module, a successful call through the patched
  \<^verbatim>\<open>OpenAI.prototype.request\<close> posts its envelope.
\<close>

theorem disabled_configuration_still_posts:
  "cfg_enabled (osmosisConfig (with_config False Cloud ready_world)) = Some False
   \<and> map outcome_summary (sent (with_config False Cloud ready_world)
        (snd (openai_request sample_env (Inr sample_options) (Inr (JStr ''ok''))
               (with_config False Cloud ready_world))))
       = [(JNum 200, JObj [(''model'', JStr ''m'')], JUndefined)]"
proof -
  let ?w = "with_config False Cloud ready_world"
  have c: "cloud_or_both ?w"
    by (simp add: cloud_or_both_def with_config_sample)
  have "map payload (fetches (snd (openai_request sample_env (Inr sample_options) (Inr (JStr ''ok'')) ?w)))
      = map payload (fetches ?w)
        @ [send_now_payload sample_env (request_query ''OpenAI'' (Some ''v1'') sample_options)
             (data_response (JStr ''ok'')) 200 ?w]"
    by (simp add: openai_request_def request_phase_def response_phase_def Let_def c
        with_config_sample(1,2,3) send_now_sends [OF sample_serializes])
  then have "sent ?w (snd (openai_request sample_env (Inr sample_options) (Inr (JStr ''ok'')) ?w))
      = [send_now_payload sample_env (request_query ''OpenAI'' (Some ''v1'') sample_options)
             (data_response (JStr ''ok'')) 200 ?w]"
    by (rule sent_eqI)
  then show ?thesis
    by (simp add: outcome_summary_send_now request_query_body response_error with_config_sample
        sample_options_def)
qed


lemma sample_quiet: "\<forall>n. fetch_outcome sample_env n = FetchStatus 200"
  by (simp add: sample_env_def)

lemma iso_now_sample:
  "reads w = 0 \<Longrightarrow> fst (iso_now sample_env w) = ''T1700000000000''"
  by (simp add: iso_now_def clock_def sample_env_def decimal_sample)

text \<open>
  C3 says that every family prints the request when logging is enabled and the
  destination is \<^verbatim>\<open>console\<close> or \<^verbatim>\<open>both\<close>. Under \<^verbatim>\<open>both\<close> the patched
  \<^verbatim>\<open>Anthropic.prototype.request\<close> prints nothing, where the patched
  \<^verbatim>\<open>OpenAI.prototype.request\<close> prints the record of the same request.
\<close>

theorem anthropic_both_prints_nothing:
  "cfg_enabled (osmosisConfig (with_config True Both ready_world)) = Some True
   \<and> console_or_both (with_config True Both ready_world)
   \<and> console (snd (anthropic_request sample_env (Inr sample_options) (Inr (JStr ''ok''))
        (with_config True Both ready_world))) = []
   \<and> console (snd (openai_request sample_env (Inr sample_options) (Inr (JStr ''ok''))
        (with_config True Both ready_world)))
       = [Log ''[OSMOSIS-AI][T1700000000000] OpenAI Request:'',
          Log ''  Path: /v1/messages'', Log ''  Method: post'', Log ''  Body: {}'']"
proof -
  let ?w = "with_config True Both ready_world"
  have d: "cloud_or_both ?w" "console_or_both ?w"
    by (simp_all add: cloud_or_both_def console_or_both_def with_config_sample)
  have a: "console (snd (anthropic_request sample_env (Inr sample_options) (Inr (JStr ''ok'')) ?w)) = []"
    by (simp add: anthropic_request_def request_phase_def response_phase_def Let_def d
        with_config_sample send_now_quiet [OF _ sample_serializes sample_quiet])
  let ?c = "console_record sample_env ''OpenAI'' ''T1700000000000'' (JStr ''/v1/messages'')
              (JStr ''post'') (JObj [(''model'', JStr ''m'')]) JUndefined
              (snd (iso_now sample_env ?w))"
  have rc: "ready ?c"
    by (simp add: ready_def no_api_key_def console_record_keeps iso_now_keeps)
       (simp add: with_config_def ready_world_def)
  have cc: "console ?c = [Log ''[OSMOSIS-AI][T1700000000000] OpenAI Request:'',
          Log ''  Path: /v1/messages'', Log ''  Method: post'', Log ''  Body: {}'']"
    by (simp add: console_record_def log_query_def log_body_def console_log_def template_def
        iso_now_keeps with_config_sample sample_env_def)
  have lr: "logRequest sample_env ''OpenAI'' ''T1700000000000'' (JStr ''/v1/messages'')
              (JStr ''post'') (JObj [(''model'', JStr ''m'')]) JUndefined
              (snd (iso_now sample_env ?w))
            = snd (sendToOsmosis sample_env
                (queryData ''OpenAI'' (JStr ''/v1/messages'') (JStr ''post'')
                   (JObj [(''model'', JStr ''m'')]) JUndefined ''T1700000000000'') [] 200 ?c)"
    using rc
    by (simp add: logRequest_def Let_def iso_now_keeps with_config_sample destination_keeps d
        cloud_or_both_def console_record_keeps isCloudLoggingEnabled_def ready_def)
  have o: "console (snd (openai_request sample_env (Inr sample_options) (Inr (JStr ''ok'')) ?w))
       = [Log ''[OSMOSIS-AI][T1700000000000] OpenAI Request:'',
          Log ''  Path: /v1/messages'', Log ''  Method: post'', Log ''  Body: {}'']"
    by (simp add: openai_request_def request_phase_def response_phase_def Let_def d
        with_config_sample send_now_quiet [OF _ sample_serializes sample_quiet] ready_keeps rc
        log_request_now_def case_prod_beta iso_now_sample sample_options_def lr
        sendToOsmosis_quiet [OF rc sample_serializes sample_quiet] cc)
  show ?thesis
    using a o d by (simp add: with_config_sample)
qed




end
